theory Spec2Isabelle
  imports Complex_Main
begin

section \<open>JavaScript strings\<close>

text \<open>
  A JavaScript string is modelled as a \<^typ>\<open>string\<close> holding its UTF-8 bytes. The
  functions below only look for ASCII text (the dot, the extensions, the host markers), and
  in UTF-8 an ASCII byte never occurs inside the encoding of another character, so splitting
  and searching on bytes agrees with splitting and searching on UTF-16 code units.
\<close>

text \<open>\<^verbatim>\<open>s.split(d)\<close> for a one-character separator: never empty, \<^verbatim>\<open>"".split(".")\<close> is \<^verbatim>\<open>[""]\<close>.\<close>

fun split :: "char \<Rightarrow> string \<Rightarrow> string list" where
  "split d [] = [[]]"
| "split d (c # cs) =
     (if c = d then [] # split d cs
      else (case split d cs of
              [] \<Rightarrow> [[c]]
            | w # ws \<Rightarrow> (c # w) # ws))"

text \<open>\<^verbatim>\<open>xs.pop()\<close>: the last element, \<^verbatim>\<open>undefined\<close> (here \<open>None\<close>) on an empty array.\<close>

definition pop :: "'a list \<Rightarrow> 'a option" where
  "pop xs = (if xs = [] then None else Some (last xs))"

text \<open>
  \<^verbatim>\<open>toLowerCase\<close> on one character. The letters A to Z move to a to z. No character
  outside ASCII lower-cases to a single ASCII letter that occurs in one of the extensions
  compared below, so leaving the other bytes alone does not change any comparison made here.
\<close>

definition toLowerChar :: "char \<Rightarrow> char" where
  "toLowerChar c =
     (case map_of (zip ''ABCDEFGHIJKLMNOPQRSTUVWXYZ'' ''abcdefghijklmnopqrstuvwxyz'') c of
        None \<Rightarrow> c
      | Some l \<Rightarrow> l)"

definition toLowerCase :: "string \<Rightarrow> string" where
  "toLowerCase s = map toLowerChar s"

text \<open>\<^verbatim>\<open>s.startsWith(t)\<close> and \<^verbatim>\<open>s.includes(t)\<close>.\<close>

definition startsWith :: "string \<Rightarrow> string \<Rightarrow> bool" where
  "startsWith s t = (take (length t) s = t)"

fun str_includes :: "string \<Rightarrow> string \<Rightarrow> bool" where
  "str_includes [] t = (t = [])"
| "str_includes (c # cs) t = (startsWith (c # cs) t \<or> str_includes cs t)"

text \<open>\<^verbatim>\<open>xs.includes(x)\<close> on an array.\<close>

definition array_includes :: "'a list \<Rightarrow> 'a \<Rightarrow> bool" where
  "array_includes xs x = (x \<in> set xs)"

section \<open>Content type detection (contentPlugins.js)\<close>

text \<open>
  \<^verbatim>\<open>new URL(src, window.location.href)\<close> is the browser's URL parser. It is not code of
  this repository, so it is a parameter of the model: \<open>url src\<close> is \<open>None\<close> when the
  constructor throws and \<open>Some h\<close> when it returns a URL whose \<^verbatim>\<open>hostname\<close> is \<open>h\<close>.
\<close>

type_synonym url_parser = "string \<Rightarrow> string option"

text \<open>
  \<^verbatim>\<open>detectType\<close> of \<^verbatim>\<open>contentPlugins.js\<close>. \<^verbatim>\<open>!src\<close> is the empty string; the \<^verbatim>\<open>catch\<close>
  branch is the \<open>None\<close> case of the parser.
\<close>

definition detectType :: "url_parser \<Rightarrow> string \<Rightarrow> string" where
  "detectType url src =
     (if src = [] then ''iframe''
      else case url src of
        None \<Rightarrow> ''iframe''
      | Some hostname \<Rightarrow>
          (case pop (split CHR ''.'' src) of
             None \<Rightarrow> ''iframe''
           | Some seg \<Rightarrow>
              (let ext = toLowerCase seg in
               if str_includes hostname ''youtube.com'' \<or>
                  str_includes hostname ''vimeo.com'' \<or>
                  array_includes [''mp4'', ''webm'', ''ogg'', ''mov'', ''avi''] ext
               then ''video''
               else if array_includes [''glb'', ''gltf'', ''obj'', ''fbx'', ''3ds''] ext
               then ''model''
               else if ext = ''pdf'' then ''pdf''
               else if ext = ''ply'' then ''supersplat''
               else if str_includes hostname ''h5p.org'' \<or>
                       str_includes src ''/h5p/'' \<or>
                       str_includes src ''h5p''
               then ''h5p''
               else ''iframe'')))"

text \<open>
  The variants of \<^verbatim>\<open>contentPlugins.js\<close> that load plugins dynamically test \<^verbatim>\<open>ply\<close> before
  \<^verbatim>\<open>pdf\<close>; nothing else differs.
\<close>

definition detectType_dynamic :: "url_parser \<Rightarrow> string \<Rightarrow> string" where
  "detectType_dynamic url src =
     (if src = [] then ''iframe''
      else case url src of
        None \<Rightarrow> ''iframe''
      | Some hostname \<Rightarrow>
          (case pop (split CHR ''.'' src) of
             None \<Rightarrow> ''iframe''
           | Some seg \<Rightarrow>
              (let ext = toLowerCase seg in
               if str_includes hostname ''youtube.com'' \<or>
                  str_includes hostname ''vimeo.com'' \<or>
                  array_includes [''mp4'', ''webm'', ''ogg'', ''mov'', ''avi''] ext
               then ''video''
               else if array_includes [''glb'', ''gltf'', ''obj'', ''fbx'', ''3ds''] ext
               then ''model''
               else if ext = ''ply'' then ''supersplat''
               else if ext = ''pdf'' then ''pdf''
               else if str_includes hostname ''h5p.org'' \<or>
                       str_includes src ''/h5p/'' \<or>
                       str_includes src ''h5p''
               then ''h5p''
               else ''iframe'')))"

subsection \<open>The vocabulary of the specification\<close>

text \<open>The value of the local constant \<^verbatim>\<open>ext\<close>: the last dot-separated segment, lower-cased.\<close>

definition extension :: "string \<Rightarrow> string" where
  "extension src = toLowerCase (last (split CHR ''.'' src))"

text \<open>
  The specification's table of recognized extensions and their documented types
  (written from the specification, to be compared with \<^const>\<open>detectType\<close>).
\<close>

definition documented_type :: "string \<Rightarrow> string option" where
  "documented_type ext =
     (if ext \<in> {''mp4'', ''webm'', ''ogg'', ''mov'', ''avi''} then Some ''video''
      else if ext \<in> {''glb'', ''gltf'', ''obj'', ''fbx'', ''3ds''} then Some ''model''
      else if ext = ''ply'' then Some ''supersplat''
      else if ext = ''pdf'' then Some ''pdf''
      else None)"

text \<open>A hostname of a known video platform, and the h5p markers of host and source.\<close>

definition video_host :: "string \<Rightarrow> bool" where
  "video_host hostname =
     (str_includes hostname ''youtube.com'' \<or> str_includes hostname ''vimeo.com'')"

definition h5p_marker :: "string \<Rightarrow> string \<Rightarrow> bool" where
  "h5p_marker hostname src =
     (str_includes hostname ''h5p.org'' \<or> str_includes src ''/h5p/'' \<or> str_includes src ''h5p'')"

text \<open>
  For the examples: the URL parser of a page served from \<^verbatim>\<open>example.com\<close>, on relative
  references. A relative reference resolves against the page's own URL, so the constructor
  succeeds and the hostname is the page's.
\<close>

definition example_page :: url_parser where
  "example_page src = Some ''example.com''"

section \<open>The wrapper object (wrapper.js)\<close>

text \<open>
  The fields of a JavaScript object that may be \<^verbatim>\<open>undefined\<close> or \<^verbatim>\<open>null\<close> are options.
  A string is truthy when it is present and not empty.
\<close>

definition truthy :: "string option \<Rightarrow> bool" where
  "truthy v = (case v of None \<Rightarrow> False | Some s \<Rightarrow> s \<noteq> [])"

record transcript =
  language :: string
  url :: string
  isDefault :: bool

record link =
  link_text :: "string option"
  link_url :: "string option"

record attribution =
  a_title :: "link option"
  a_author :: "link option"
  a_license :: "link option"

text \<open>\<^verbatim>\<open>this.config\<close>: the constructor's defaults, then whatever the caller passed.\<close>

record config =
  type :: "string option"
  title :: "string option"
  showHeader :: bool
  manifestUrl :: "string option"
  theme :: "string option"
  backgroundColor :: "string option"
  src :: "string option"
  transcripts :: "transcript list option"
  attribution :: "attribution option"

definition default_config :: config where
  "default_config =
     \<lparr>type = Some ''auto'', title = Some [], showHeader = False, manifestUrl = None,
      theme = Some ''auto'', backgroundColor = None, src = None, transcripts = None,
      attribution = None\<rparr>"

text \<open>\<^verbatim>\<open>this.state\<close>. A timer handle is the identifier \<^verbatim>\<open>setTimeout\<close> returned.\<close>

record state =
  isReady :: bool
  currentTheme :: string
  transcriptVisible :: bool
  lastHeight :: int
  lastWidth :: int
  resizeTimer :: "nat option"

definition initial_state :: state where
  "initial_state =
     \<lparr>isReady = False, currentTheme = ''light'', transcriptVisible = False,
      lastHeight = 0, lastWidth = 0, resizeTimer = None\<rparr>"

subsection \<open>The browser around the wrapper\<close>

text \<open>
  What the code reads from and writes to the document. \<open>wrapperEl\<close> is the element
  \<^verbatim>\<open>.lo-wrapper\<close> (absent when \<^verbatim>\<open>querySelector\<close> returns \<^verbatim>\<open>null\<close>) with the height of its
  bounding rectangle and its \<^verbatim>\<open>style.display\<close>. The rendered HTML itself is not modelled:
  of the header only the titles shown, of the transcript section its count, its language
  options (each with its \<^verbatim>\<open>selected\<close> attribute) and its text, of the attribution footer
  only its count.
\<close>

record wrapper_el =
  rectHeight :: real
  display :: string

datatype transcript_text = Placeholder | Content string | Unavailable

record dom =
  embedded :: bool
  wrapperEl :: "wrapper_el option"
  contentEl :: bool
  bodyScrollHeight :: int
  bodyOffsetHeight :: int
  docOffsetHeight :: int
  innerWidth :: int
  headerTitles :: "string list"
  transcriptSections :: nat
  languageOptions :: "(string \<times> bool) list"
  transcriptText :: transcript_text
  attributionFooters :: nat

text \<open>The payload of \<^verbatim>\<open>window.parent.postMessage\<close>.\<close>

record message =
  subject :: string
  height :: int

text \<open>
  \<^verbatim>\<open>fetch\<close>: the promise rejects, or resolves to a response with its \<^verbatim>\<open>ok\<close> flag, its
  \<^verbatim>\<open>statusText\<close> / \<^verbatim>\<open>status\<close> and its body. The body of a manifest is read with
  \<^verbatim>\<open>response.json()\<close>, which rejects on malformed JSON; \<^verbatim>\<open>null\<close> is valid JSON, and a
  property read on it throws. Any other JSON value that is not an object reads every
  property as \<^verbatim>\<open>undefined\<close>, as the object without fields does.
\<close>

record manifest =
  m_type :: "string option"
  m_title :: "string option"
  m_src :: "string option"
  m_transcripts :: "transcript list option"
  m_attribution :: "attribution option"

datatype json = Malformed | JsonNull | JsonObject manifest

datatype 'a fetched = Rejected | Response bool string 'a

datatype exn = NetworkError | Error string | SyntaxError | TypeError

text \<open>
  The wrapper together with the browser it runs in. \<open>posted\<close> are the messages posted
  to the parent frame, \<open>warnings\<close> what \<^verbatim>\<open>logger.warn\<close> and \<^verbatim>\<open>logger.error\<close> received,
  \<open>requested\<close> the transcript URLs fetched. \<open>now\<close>, \<open>nextTimerId\<close> and \<open>pending\<close> are
  the clock (in milliseconds) and the timers set with \<^verbatim>\<open>setTimeout\<close> and not yet run or
  cleared, each with its identifier and the time it is due; \<open>ran\<close> lists the timers whose
  callback has run, with the time of the run.
\<close>

record world =
  config :: config
  state :: state
  dom :: dom
  posted :: "message list"
  warnings :: "string list"
  manifests :: "string \<Rightarrow> json fetched"
  texts :: "string \<Rightarrow> string fetched"
  requested :: "string list"
  now :: nat
  nextTimerId :: nat
  pending :: "(nat \<times> nat) list"
  ran :: "(nat \<times> nat) list"

subsection \<open>Theme\<close>

text \<open>\<^verbatim>\<open>window.matchMedia(query).matches\<close> is a parameter: the user's system settings.\<close>

type_synonym match_media = "string \<Rightarrow> bool"

definition detectTheme :: "config \<Rightarrow> match_media \<Rightarrow> string" where
  "detectTheme c matchMedia =
     (case (if truthy (theme c) \<and> theme c \<noteq> Some ''auto'' then theme c else None) of
        Some forced \<Rightarrow> forced
      | None \<Rightarrow>
          if matchMedia ''(prefers-contrast: high)'' then ''high-contrast''
          else if matchMedia ''(prefers-color-scheme: dark)'' then ''dark''
          else ''light'')"

text \<open>Three system settings for the examples.\<close>

definition dark_high_contrast :: match_media where
  "dark_high_contrast q =
     (q = ''(prefers-contrast: high)'' \<or> q = ''(prefers-color-scheme: dark)'')"

definition dark_only :: match_media where
  "dark_only q = (q = ''(prefers-color-scheme: dark)'')"

definition no_preference :: match_media where
  "no_preference q = False"

subsection \<open>Resize negotiation\<close>

text \<open>\<^verbatim>\<open>Math.ceil\<close> is \<^const>\<open>ceiling\<close>; \<^verbatim>\<open>a || b\<close> on numbers takes \<open>b\<close> when \<open>a\<close> is zero.\<close>

definition getContentHeight :: "dom \<Rightarrow> int" where
  "getContentHeight d =
     (case (case wrapperEl d of
              None \<Rightarrow> None
            | Some contentContainer \<Rightarrow>
                if rectHeight contentContainer > 0
                then Some \<lceil>rectHeight contentContainer\<rceil> else None) of
        Some h \<Rightarrow> h
      | None \<Rightarrow>
          (let validHeights =
                 filter (\<lambda>h. h > 0) [bodyScrollHeight d, bodyOffsetHeight d, docOffsetHeight d]
           in case validHeights of
                h # hs \<Rightarrow> fold min hs h
              | [] \<Rightarrow> if bodyScrollHeight d \<noteq> 0 then bodyScrollHeight d else 400))"

definition postMessage :: "int \<Rightarrow> world \<Rightarrow> world" where
  "postMessage h w = w\<lparr>posted := posted w @ [\<lparr>subject = ''lti.frameResize'', height = h\<rparr>]\<rparr>"

definition sendResizeMessage :: "world \<Rightarrow> world" where
  "sendResizeMessage w =
     (if \<not> embedded (dom w) then w
      else
        let height = getContentHeight (dom w);
            width = innerWidth (dom w)
        in if \<bar>height - lastHeight (state w)\<bar> > 1 \<or> width \<noteq> lastWidth (state w)
           then (postMessage height w)
                  \<lparr>state := (state w)\<lparr>lastHeight := height, lastWidth := width\<rparr>\<rparr>
           else w)"

text \<open>
  \<^verbatim>\<open>forceResize\<close> hides the wrapper element, reads \<^verbatim>\<open>offsetHeight\<close> to force a reflow and
  restores the display it found, then measures.
\<close>

definition forceResize :: "world \<Rightarrow> world" where
  "forceResize w =
     (if \<not> embedded (dom w) then w
      else
        let w1 = (case wrapperEl (dom w) of
                    None \<Rightarrow> w
                  | Some wrapper \<Rightarrow>
                      let originalDisplay = display wrapper;
                          hidden = wrapper\<lparr>display := ''none''\<rparr>;
                          restored = hidden\<lparr>display := originalDisplay\<rparr>
                      in w\<lparr>dom := (dom w)\<lparr>wrapperEl := Some restored\<rparr>\<rparr>);
            height = getContentHeight (dom w1);
            width = innerWidth (dom w1)
        in (postMessage height w1)
             \<lparr>state := (state w1)\<lparr>lastHeight := height, lastWidth := width\<rparr>\<rparr>)"

subsection \<open>Debouncing\<close>

text \<open>
  \<^verbatim>\<open>clearTimeout\<close> does nothing on \<^verbatim>\<open>null\<close> or on a handle that is not pending;
  \<^verbatim>\<open>setTimeout\<close> returns a fresh handle. Of the timers of the page only those set by
  \<^verbatim>\<open>debouncedResize\<close> are modelled; the callback of each is \<^verbatim>\<open>() => this.sendResizeMessage()\<close>.
\<close>

definition clearTimeout :: "nat option \<Rightarrow> world \<Rightarrow> world" where
  "clearTimeout handle w =
     (case handle of
        None \<Rightarrow> w
      | Some i \<Rightarrow> w\<lparr>pending := filter (\<lambda>t. fst t \<noteq> i) (pending w)\<rparr>)"

definition setTimeout :: "nat \<Rightarrow> world \<Rightarrow> nat \<times> world" where
  "setTimeout delay w =
     (nextTimerId w,
      w\<lparr>nextTimerId := Suc (nextTimerId w),
        pending := pending w @ [(nextTimerId w, now w + delay)]\<rparr>)"

definition debouncedResize :: "world \<Rightarrow> world" where
  "debouncedResize w =
     (let w1 = clearTimeout (resizeTimer (state w)) w;
          (handle, w2) = setTimeout 100 w1
      in w2\<lparr>state := (state w2)\<lparr>resizeTimer := Some handle\<rparr>\<rparr>)"

text \<open>
  The event loop: when \<open>d\<close> milliseconds pass, the timers that have become due run in the
  order of their due times, each at its due time, and leave the pending list. (A browser
  may run a timer later than it is due; the model runs it on time.)
\<close>

definition runTimer :: "nat \<times> nat \<Rightarrow> world \<Rightarrow> world" where
  "runTimer t w = sendResizeMessage (w\<lparr>now := snd t, ran := ran w @ [t]\<rparr>)"

definition elapse :: "nat \<Rightarrow> world \<Rightarrow> world" where
  "elapse d w =
     (let t = now w + d;
          due = filter (\<lambda>p. snd p \<le> t) (pending w);
          w1 = w\<lparr>pending := filter (\<lambda>p. \<not> snd p \<le> t) (pending w)\<rparr>;
          w2 = fold runTimer (sort_key snd due) w1
      in w2\<lparr>now := t\<rparr>)"

text \<open>
  A burst of calls of \<^verbatim>\<open>debouncedResize\<close>: one call, then for each gap of the list that
  many milliseconds and another call. \<open>burst_worlds\<close> lists every world the burst goes
  through: after each call and after each gap.
\<close>

fun burst :: "nat list \<Rightarrow> world \<Rightarrow> world" where
  "burst [] w = debouncedResize w"
| "burst (gap # gaps) w = burst gaps (elapse gap (debouncedResize w))"

fun burst_worlds :: "nat list \<Rightarrow> world \<Rightarrow> world list" where
  "burst_worlds [] w = [debouncedResize w]"
| "burst_worlds (gap # gaps) w =
     debouncedResize w # elapse gap (debouncedResize w) #
     burst_worlds gaps (elapse gap (debouncedResize w))"

text \<open>The only timers pending are the one whose handle the wrapper holds.\<close>

definition debounce_timers_only :: "world \<Rightarrow> bool" where
  "debounce_timers_only w = (\<forall>t \<in> set (pending w). resizeTimer (state w) = Some (fst t))"

subsection \<open>Transcripts\<close>

definition updateTranscriptDisplay :: "string \<Rightarrow> world \<Rightarrow> world" where
  "updateTranscriptDisplay content w =
     (if transcriptSections (dom w) > 0 \<and> content \<noteq> []
      then w\<lparr>dom := (dom w)\<lparr>transcriptText := Content content\<rparr>\<rparr>
      else w)"

definition showTranscriptError :: "world \<Rightarrow> world" where
  "showTranscriptError w =
     (if transcriptSections (dom w) > 0
      then w\<lparr>dom := (dom w)\<lparr>transcriptText := Unavailable\<rparr>\<rparr>
      else w)"

text \<open>
  \<^verbatim>\<open>loadTranscript\<close> and \<^verbatim>\<open>loadDefaultTranscript\<close> are \<^verbatim>\<open>async\<close>; the model runs the fetch
  to its end at once. Where \<^verbatim>\<open>this.config.transcripts\<close> is \<^verbatim>\<open>undefined\<close> the call of
  \<^verbatim>\<open>find\<close> throws and the promise rejects, with no other effect.
\<close>

definition loadTranscript :: "string \<Rightarrow> world \<Rightarrow> world" where
  "loadTranscript lang w =
     (case transcripts (config w) of
        None \<Rightarrow> w
      | Some ts \<Rightarrow>
          (case find (\<lambda>t. language t = lang) ts of
             None \<Rightarrow> w\<lparr>warnings := warnings w @ [''Transcript not found for language: '' @ lang]\<rparr>
           | Some transcript \<Rightarrow>
               (let w1 = w\<lparr>requested := requested w @ [url transcript]\<rparr>;
                    failed = showTranscriptError
                               (w1\<lparr>warnings := warnings w1 @ [''Transcript load error'']\<rparr>)
                in case texts w (url transcript) of
                     Rejected \<Rightarrow> failed
                   | Response ok status content \<Rightarrow>
                       if \<not> ok then failed else updateTranscriptDisplay content w1)))"

definition loadDefaultTranscript :: "world \<Rightarrow> world" where
  "loadDefaultTranscript w =
     (case transcripts (config w) of
        None \<Rightarrow> w
      | Some ts \<Rightarrow>
          (case (case find (\<lambda>t. isDefault t) ts of
                   Some t \<Rightarrow> Some t
                 | None \<Rightarrow> (case ts of [] \<Rightarrow> None | t # _ \<Rightarrow> Some t)) of
             None \<Rightarrow> w
           | Some defaultTranscript \<Rightarrow> loadTranscript (language defaultTranscript) w))"

definition createTranscriptUI :: "world \<Rightarrow> world" where
  "createTranscriptUI w =
     (case transcripts (config w) of
        None \<Rightarrow> w
      | Some ts \<Rightarrow>
          if ts = [] then w
          else if wrapperEl (dom w) = None then w
          else
            loadDefaultTranscript
              (w\<lparr>dom := (dom w)
                   \<lparr>transcriptSections := Suc (transcriptSections (dom w)),
                    languageOptions :=
                      languageOptions (dom w) @
                      (if length ts > 1 then map (\<lambda>t. (language t, isDefault t)) ts else [])\<rparr>\<rparr>))"

subsection \<open>Manifest\<close>

definition createAttributionFooter :: "world \<Rightarrow> world" where
  "createAttributionFooter w =
     (case attribution (config w) of
        None \<Rightarrow> w
      | Some a \<Rightarrow>
          if wrapperEl (dom w) = None then w
          else if a_title a = None \<and> a_author a = None \<and> a_license a = None then w
          else w\<lparr>dom := (dom w)\<lparr>attributionFooters := Suc (attributionFooters (dom w))\<rparr>\<rparr>)"

definition updateTitle :: "string option \<Rightarrow> world \<Rightarrow> world" where
  "updateTitle newTitle w =
     (let w1 = w\<lparr>config := (config w)\<lparr>title := newTitle\<rparr>\<rparr>
      in case headerTitles (dom w1) of
           [] \<Rightarrow> w1
         | t # ts \<Rightarrow>
             w1\<lparr>dom := (dom w1)
                  \<lparr>headerTitles := (case newTitle of None \<Rightarrow> [] | Some s \<Rightarrow> s) # ts\<rparr>\<rparr>)"

text \<open>
  \<^verbatim>\<open>updateHeaderAfterManifest\<close> reads \<^verbatim>\<open>wrapperElement.querySelector\<close> before it tests
  \<^verbatim>\<open>wrapperElement\<close>: without the wrapper element it throws.
\<close>

definition updateHeaderAfterManifest :: "world \<Rightarrow> exn + world" where
  "updateHeaderAfterManifest w =
     (if \<not> truthy (title (config w)) \<or> \<not> showHeader (config w) then Inr w
      else case wrapperEl (dom w) of
             None \<Rightarrow> Inl TypeError
           | Some wrapperElement \<Rightarrow>
               if contentEl (dom w)
               then Inr (w\<lparr>dom := (dom w)
                             \<lparr>headerTitles :=
                                headerTitles (dom w) @
                                [case title (config w) of None \<Rightarrow> [] | Some s \<Rightarrow> s]\<rparr>\<rparr>)
               else Inr w)"

text \<open>
  The \<^verbatim>\<open>try\<close> block of \<^verbatim>\<open>loadManifest\<close>: the exception thrown, if any, and the world at
  that point (nothing is rolled back). \<^verbatim>\<open>fetch(null)\<close> requests the URL \<^verbatim>\<open>null\<close>. On the
  manifest \<^verbatim>\<open>null\<close> the two assignments either throw or store the value already there, and
  the test of \<^verbatim>\<open>manifest.title\<close> after them throws.
\<close>

definition loadManifest_try :: "world \<Rightarrow> exn option \<times> world" where
  "loadManifest_try w =
     (case manifests w (case manifestUrl (config w) of None \<Rightarrow> ''null'' | Some u \<Rightarrow> u) of
        Rejected \<Rightarrow> (Some NetworkError, w)
      | Response ok statusText body \<Rightarrow>
          if \<not> ok then (Some (Error (''Failed to load manifest: '' @ statusText)), w)
          else
            (case body of
               Malformed \<Rightarrow> (Some SyntaxError, w)
             | JsonNull \<Rightarrow> (Some TypeError, w)
             | JsonObject manifest \<Rightarrow>
                 (let hadTitle = truthy (title (config w));
                      c1 = (config w)
                             \<lparr>title := (if truthy (title (config w)) then title (config w)
                                        else m_title manifest)\<rparr>;
                      c2 = c1\<lparr>type := (if type c1 = Some ''auto'' then m_type manifest
                                        else type c1)\<rparr>;
                      w2 = w\<lparr>config := c2\<rparr>
                  in case (if truthy (m_title manifest) \<and> showHeader c2 \<and> \<not> hadTitle
                           then updateHeaderAfterManifest w2
                           else if truthy (m_title manifest) \<and> showHeader c2 \<and> hadTitle
                           then Inr (updateTitle (title c2) w2)
                           else Inr w2) of
                       Inl e \<Rightarrow> (Some e, w2)
                     | Inr w3 \<Rightarrow>
                         (let w4 = (case m_transcripts manifest of
                                      None \<Rightarrow> w3
                                    | Some ts \<Rightarrow>
                                        createTranscriptUI
                                          (w3\<lparr>config := (config w3)\<lparr>transcripts := Some ts\<rparr>\<rparr>));
                              w5 = (case m_attribution manifest of
                                      None \<Rightarrow> w4
                                    | Some a \<Rightarrow>
                                        createAttributionFooter
                                          (w4\<lparr>config := (config w4)\<lparr>attribution := Some a\<rparr>\<rparr>))
                          in (None, w5)))))"

text \<open>
  \<^verbatim>\<open>loadManifest\<close>: the \<^verbatim>\<open>try\<close> block under its \<^verbatim>\<open>catch\<close>, which only warns. The first
  component is the exception that leaves the function.
\<close>

definition loadManifest :: "world \<Rightarrow> exn option \<times> world" where
  "loadManifest w =
     (case loadManifest_try w of
        (None, w') \<Rightarrow> (None, w')
      | (Some error, w') \<Rightarrow> (None, w'\<lparr>warnings := warnings w' @ [''Failed to load manifest:'']\<rparr>))"

subsection \<open>Worlds for the examples\<close>

text \<open>
  A document shown in a frame, with the structure \<^verbatim>\<open>createWrapperStructure\<close> builds, and
  the world right after the constructor has stored configuration and state: nothing posted,
  no timer set, and a network on which every fetch is rejected.
\<close>

definition example_dom :: dom where
  "example_dom =
     \<lparr>embedded = True, wrapperEl = Some \<lparr>rectHeight = 601 / 2, display = ''block''\<rparr>,
      contentEl = True, bodyScrollHeight = 320, bodyOffsetHeight = 310, docOffsetHeight = 315,
      innerWidth = 800, headerTitles = [], transcriptSections = 0, languageOptions = [],
      transcriptText = Placeholder, attributionFooters = 0\<rparr>"

definition offline :: "string \<Rightarrow> 'a fetched" where
  "offline u = Rejected"

definition new_world :: "config \<Rightarrow> dom \<Rightarrow> world" where
  "new_world c d =
     \<lparr>config = c, state = initial_state, dom = d, posted = [], warnings = [],
      manifests = offline, texts = offline, requested = [], now = 0, nextTimerId = 1,
      pending = [], ran = []\<rparr>"

text \<open>
  Two transcripts both marked default, and a manifest as in the specification's example
  (\<^verbatim>\<open>src = "a.mp4"\<close>, \<^verbatim>\<open>type = "video"\<close>) served at \<^verbatim>\<open>m.json\<close>.
\<close>

definition english :: transcript where
  "english = \<lparr>language = ''en'', url = ''en.txt'', isDefault = True\<rparr>"

definition french :: transcript where
  "french = \<lparr>language = ''fr'', url = ''fr.txt'', isDefault = True\<rparr>"

definition two_defaults :: world where
  "two_defaults =
     new_world (default_config\<lparr>transcripts := Some [english, french]\<rparr>) example_dom"

definition example_manifest :: manifest where
  "example_manifest =
     \<lparr>m_type = Some ''video'', m_title = None, m_src = Some ''a.mp4'',
      m_transcripts = None, m_attribution = None\<rparr>"

definition serving :: "json fetched \<Rightarrow> string \<Rightarrow> json fetched" where
  "serving r u = (if u = ''m.json'' then r else Rejected)"

text \<open>
  A wrapper built with \<^verbatim>\<open>src = "b.mp4"\<close> and the manifest URL \<^verbatim>\<open>m.json\<close>, where the
  example manifest is served; the same built with \<^verbatim>\<open>type = "model"\<close> too; and the same
  where the server answers 404, or with a body that is not JSON.
\<close>

definition url_src_world :: world where
  "url_src_world =
     (new_world (default_config\<lparr>src := Some ''b.mp4'', manifestUrl := Some ''m.json''\<rparr>)
        example_dom)
       \<lparr>manifests := serving (Response True ''OK'' (JsonObject example_manifest))\<rparr>"

definition url_type_world :: world where
  "url_type_world =
     url_src_world\<lparr>config := (config url_src_world)\<lparr>type := Some ''model''\<rparr>\<rparr>"

definition not_found_world :: world where
  "not_found_world =
     url_src_world\<lparr>manifests := serving (Response False ''Not Found'' Malformed)\<rparr>"

definition malformed_world :: world where
  "malformed_world =
     url_src_world\<lparr>manifests := serving (Response True ''OK'' Malformed)\<rparr>"

text \<open>The ways the fetch of the manifest fails to deliver a manifest object.\<close>

definition manifest_fetch_fails :: "world \<Rightarrow> bool" where
  "manifest_fetch_fails w =
     (case manifests w (case manifestUrl (config w) of None \<Rightarrow> ''null'' | Some u \<Rightarrow> u) of
        Rejected \<Rightarrow> True
      | Response ok statusText body \<Rightarrow> \<not> ok \<or> body = Malformed \<or> body = JsonNull)"

text \<open>The document heights that are positive.\<close>

definition positive_heights :: "dom \<Rightarrow> int set" where
  "positive_heights d =
     {h \<in> {bodyScrollHeight d, bodyOffsetHeight d, docOffsetHeight d}. h > 0}"

section \<open>Configuration resolution (specification, section 4.1)\<close>

text \<open>
  Modelled from the spec: the resolver \<^verbatim>\<open>resolve(urlParams, manifestJsonOrNull, defaults)\<close>
  of the ConfigResolver. The code that parses the query parameters and merges them with the
  manifest (the page \<^verbatim>\<open>embed.html\<close>) is not among the source files; \<^verbatim>\<open>wrapper.js\<close> only
  receives a finished configuration object. What follows is written from sections 4.1 and 6
  of the specification. Of the configuration only the fields of \<^typ>\<open>config\<close> are kept
  (poster and captions are left out).
\<close>

text \<open>
  Modelled from the spec: the query parameters of section 6, \<^verbatim>\<open>m\<close>, \<^verbatim>\<open>type\<close>, \<^verbatim>\<open>src\<close>,
  \<^verbatim>\<open>t\<close>, \<^verbatim>\<open>h\<close>, \<^verbatim>\<open>bg\<close>, and the attribution read from \<^verbatim>\<open>at\<close> to \<^verbatim>\<open>alu\<close>; each is
  optional.
\<close>

record url_params =
  q_m :: "string option"
  q_type :: "string option"
  q_src :: "string option"
  q_t :: "string option"
  q_h :: "bool option"
  q_bg :: "string option"
  q_attribution :: "attribution option"

text \<open>
  Modelled from the spec: the manifest document of section 6, which has a \<^verbatim>\<open>showHeader\<close>
  beside the fields \<^verbatim>\<open>loadManifest\<close> reads, and the argument \<^verbatim>\<open>manifestJsonOrNull\<close>: no
  manifest, a fetched manifest that is not valid JSON, or a manifest document.
\<close>

record manifest_document = manifest +
  m_showHeader :: "bool option"

datatype manifest_input = NoManifest | InvalidJson | Manifest manifest_document

datatype resolve_error = ConfigError

text \<open>
  Modelled from the spec: a priority list, highest first; the first source that has a value
  gives it.
\<close>

fun first_present :: "'a option list \<Rightarrow> 'a option" where
  "first_present [] = None"
| "first_present (None # sources) = first_present sources"
| "first_present (Some v # sources) = Some v"

definition from_manifest ::
  "manifest_input \<Rightarrow> (manifest_document \<Rightarrow> 'a option) \<Rightarrow> 'a option" where
  "from_manifest manifestJsonOrNull field =
     (case manifestJsonOrNull of Manifest d \<Rightarrow> field d | _ \<Rightarrow> None)"

text \<open>
  Modelled from the spec: the priority algorithm, field by field. For \<^verbatim>\<open>src\<close> and
  \<^verbatim>\<open>type\<close> the manifest comes first, then the URL parameter, then the default; for every
  other field the URL parameter comes first, then the manifest, then the default. The theme
  has neither a query parameter nor a manifest field.
\<close>

definition merge :: "url_params \<Rightarrow> manifest_input \<Rightarrow> config \<Rightarrow> config" where
  "merge urlParams manifestJsonOrNull defaults =
     \<lparr>type = first_present
               [from_manifest manifestJsonOrNull m_type, q_type urlParams, type defaults],
      title = first_present
                [q_t urlParams, from_manifest manifestJsonOrNull m_title, title defaults],
      showHeader =
        (case first_present [q_h urlParams, from_manifest manifestJsonOrNull m_showHeader] of
           None \<Rightarrow> showHeader defaults
         | Some h \<Rightarrow> h),
      manifestUrl = first_present [q_m urlParams, manifestUrl defaults],
      theme = theme defaults,
      backgroundColor = first_present [q_bg urlParams, backgroundColor defaults],
      src = first_present
              [from_manifest manifestJsonOrNull m_src, q_src urlParams, src defaults],
      transcripts = first_present
                      [from_manifest manifestJsonOrNull m_transcripts, transcripts defaults],
      attribution = first_present
                      [q_attribution urlParams, from_manifest manifestJsonOrNull m_attribution,
                       attribution defaults]\<rparr>"

text \<open>
  Modelled from the spec: \<^verbatim>\<open>resolve\<close> fails with \<^verbatim>\<open>ConfigError\<close> when the fetched manifest
  is not valid JSON, and when \<^verbatim>\<open>src\<close> is absent after the merge (without a source the type
  cannot be detected either). A type that is \<^verbatim>\<open>auto\<close> after the merge is detected from the
  resolved \<^verbatim>\<open>src\<close>, once, with \<^const>\<open>detectType\<close>.
\<close>

definition resolve ::
  "url_parser \<Rightarrow> url_params \<Rightarrow> manifest_input \<Rightarrow> config \<Rightarrow> resolve_error + config" where
  "resolve parser urlParams manifestJsonOrNull defaults =
     (if manifestJsonOrNull = InvalidJson then Inl ConfigError
      else
        let merged = merge urlParams manifestJsonOrNull defaults
        in case src merged of
             None \<Rightarrow> Inl ConfigError
           | Some s \<Rightarrow>
               Inr (if type merged = Some ''auto''
                    then merged\<lparr>type := Some (detectType parser s)\<rparr>
                    else merged))"



section \<open>Verified properties\<close>

subsection \<open>Content type detection\<close>

lemma split_not_Nil: "split d s \<noteq> []"
  by (induction s) (auto split: list.splits)

lemma pop_split: "pop (split d s) = Some (last (split d s))"
  by (simp add: pop_def split_not_Nil)

text \<open>
  Once the URL parses, the answer is decided by the hostname, the lower-cased last segment
  and the h5p markers, in this order.
\<close>

lemma detectType_parsed:
  assumes "source \<noteq> []" and "parser source = Some h"
  shows "detectType parser source =
           (if video_host h then ''video''
            else case documented_type (extension source) of
                   Some t \<Rightarrow> t
                 | None \<Rightarrow> if h5p_marker h source then ''h5p'' else ''iframe'')"
  using assms
  by (auto simp: detectType_def pop_split Let_def extension_def documented_type_def
      video_host_def h5p_marker_def array_includes_def)

text \<open>The two orders of the \<^verbatim>\<open>pdf\<close> and \<^verbatim>\<open>ply\<close> tests give the same function.\<close>

lemma detectType_dynamic_eq: "detectType_dynamic parser source = detectType parser source"
  by (auto simp: detectType_def detectType_dynamic_def Let_def split: option.splits)

lemma extension_Nil: "extension [] = []"
  by (simp add: extension_def toLowerCase_def)

lemma documented_type_Nil: "documented_type [] = None"
  by (simp add: documented_type_def)

lemma example_detection:
  "video_host ''example.com'' = False"
  "extension ''file.mp4'' = ''mp4''"
  "extension ''scene.ply'' = ''ply''"
  "extension ''doc.pdf'' = ''pdf''"
  "extension ''FILE.MP4'' = ''mp4''"
  by (simp_all add: video_host_def startsWith_def extension_def toLowerCase_def toLowerChar_def)

text \<open>
  Claim C2, as the code has it. The claim reads: a source with a recognized extension gets
  the documented type, and every other input gets \<^verbatim>\<open>iframe\<close>. The second half fails, since
  the hostname and the h5p markers are looked at too: the relative source
  \<^verbatim>\<open>content/h5p/42\<close> has no recognized extension and is detected as \<^verbatim>\<open>h5p\<close>.
\<close>

theorem detectType_other_inputs_counterexample:
  "documented_type (extension ''content/h5p/42'') = None
 \<and> detectType example_page ''content/h5p/42'' = ''h5p''
 \<and> detectType example_page ''content/h5p/42'' \<noteq> ''iframe''"
  by (simp add: detectType_def example_page_def pop_def toLowerCase_def toLowerChar_def
      array_includes_def startsWith_def extension_def documented_type_def)

text \<open>
  Claim C2, amended. The empty source and a source the URL parser rejects give
  \<^verbatim>\<open>iframe\<close>. For a source that parses: the hostname of a video platform gives \<^verbatim>\<open>video\<close>
  whatever the extension; otherwise a recognized extension gives its documented type;
  otherwise an h5p marker in the hostname or the source gives \<^verbatim>\<open>h5p\<close>; otherwise the
  answer is \<^verbatim>\<open>iframe\<close>.
\<close>

theorem detectType_documented:
  "detectType parser [] = ''iframe''
 \<and> (parser source = None \<longrightarrow> detectType parser source = ''iframe'')
 \<and> (\<forall>h. source \<noteq> [] \<and> parser source = Some h \<longrightarrow>
       (video_host h \<longrightarrow> detectType parser source = ''video'')
     \<and> (\<forall>t. \<not> video_host h \<and> documented_type (extension source) = Some t \<longrightarrow>
            detectType parser source = t)
     \<and> (\<not> video_host h \<and> documented_type (extension source) = None \<and> h5p_marker h source \<longrightarrow>
            detectType parser source = ''h5p'')
     \<and> (\<not> video_host h \<and> documented_type (extension source) = None \<and> \<not> h5p_marker h source \<longrightarrow>
            detectType parser source = ''iframe''))"
proof (intro conjI allI impI)
  show "detectType parser [] = ''iframe''" by (simp add: detectType_def)
next
  assume "parser source = None"
  then show "detectType parser source = ''iframe''" by (simp add: detectType_def)
next
  fix h assume "source \<noteq> [] \<and> parser source = Some h" "video_host h"
  then show "detectType parser source = ''video''" by (simp add: detectType_parsed)
next
  fix h t
  assume "source \<noteq> [] \<and> parser source = Some h"
    "\<not> video_host h \<and> documented_type (extension source) = Some t"
  then show "detectType parser source = t" by (simp add: detectType_parsed)
next
  fix h
  assume "source \<noteq> [] \<and> parser source = Some h"
    "\<not> video_host h \<and> documented_type (extension source) = None \<and> h5p_marker h source"
  then show "detectType parser source = ''h5p''" by (simp add: detectType_parsed)
next
  fix h
  assume "source \<noteq> [] \<and> parser source = Some h"
    "\<not> video_host h \<and> documented_type (extension source) = None \<and> \<not> h5p_marker h source"
  then show "detectType parser source = ''iframe''" by (simp add: detectType_parsed)
qed

text \<open>The four examples of the specification, on a page whose host is no video platform.\<close>

theorem detectType_documented_witness:
  "detectType example_page ''file.mp4'' = ''video''
 \<and> detectType example_page ''scene.ply'' = ''supersplat''
 \<and> detectType example_page ''doc.pdf'' = ''pdf''
 \<and> detectType example_page '''' = ''iframe''"
  using detectType_documented [of example_page "''file.mp4''"]
    detectType_documented [of example_page "''scene.ply''"]
    detectType_documented [of example_page "''doc.pdf''"]
  by (simp add: example_page_def example_detection documented_type_def)

text \<open>
  Claim C10. Two sources whose last dot-separated segments differ only in letter case (they
  are equal once lower-cased), that segment being a recognized extension, are detected as
  the same type, provided the URL parser treats the two alike: the segment is compared
  only after \<^verbatim>\<open>toLowerCase\<close>.
\<close>

theorem detectType_case_insensitive:
  assumes "extension source = extension source'"
    and "documented_type (extension source) \<noteq> None"
    and "parser source = parser source'"
  shows "detectType parser source = detectType parser source'"
proof -
  from assms(2) have "source \<noteq> []"
    by (auto simp: extension_Nil documented_type_Nil)
  moreover from assms(1,2) have "source' \<noteq> []"
    by (auto simp: extension_Nil documented_type_Nil)
  ultimately have ne: "source \<noteq> []" "source' \<noteq> []" .
  show ?thesis
  proof (cases "parser source")
    case None
    with assms(3) show ?thesis by (simp add: detectType_def)
  next
    case (Some h)
    with assms(3) have "parser source' = Some h" by simp
    with Some ne assms(1,2) show ?thesis
      by (auto simp: detectType_parsed)
  qed
qed

theorem detectType_case_insensitive_witness:
  "detectType example_page ''FILE.MP4'' = detectType example_page ''file.mp4''
 \<and> detectType example_page ''file.mp4'' = ''video''"
proof -
  have "detectType example_page ''file.mp4'' = ''video''"
    by (simp add: detectType_def example_page_def pop_def toLowerCase_def toLowerChar_def
        array_includes_def startsWith_def)
  then show ?thesis
    using detectType_case_insensitive [of "''FILE.MP4''" "''file.mp4''" example_page]
    by (simp add: example_page_def example_detection documented_type_def)
qed

subsection \<open>Theme\<close>

text \<open>
  Claim C7. Theme resolution is a priority chain. A theme the configuration pins (present,
  not empty, not \<^verbatim>\<open>auto\<close>) is returned whatever the media queries say. Without one, the
  high-contrast query decides first, then the dark colour scheme query, and \<^verbatim>\<open>light\<close> is
  what remains.
\<close>

theorem detectTheme_priority:
  "(\<forall>t. theme c = Some t \<and> t \<noteq> [] \<and> t \<noteq> ''auto'' \<longrightarrow> detectTheme c matchMedia = t)
 \<and> (theme c = None \<or> theme c = Some [] \<or> theme c = Some ''auto'' \<longrightarrow>
       (matchMedia ''(prefers-contrast: high)'' \<longrightarrow>
          detectTheme c matchMedia = ''high-contrast'')
     \<and> (\<not> matchMedia ''(prefers-contrast: high)'' \<and>
        matchMedia ''(prefers-color-scheme: dark)'' \<longrightarrow>
          detectTheme c matchMedia = ''dark'')
     \<and> (\<not> matchMedia ''(prefers-contrast: high)'' \<and>
        \<not> matchMedia ''(prefers-color-scheme: dark)'' \<longrightarrow>
          detectTheme c matchMedia = ''light''))"
  by (auto simp: detectTheme_def truthy_def)

text \<open>Each level of the chain on its own.\<close>

theorem detectTheme_priority_witness:
  "detectTheme (default_config\<lparr>theme := Some ''light''\<rparr>) dark_high_contrast = ''light''
 \<and> detectTheme default_config dark_high_contrast = ''high-contrast''
 \<and> detectTheme default_config dark_only = ''dark''
 \<and> detectTheme default_config no_preference = ''light''"
  using detectTheme_priority [of "default_config\<lparr>theme := Some ''light''\<rparr>" dark_high_contrast]
    detectTheme_priority [of default_config dark_high_contrast]
    detectTheme_priority [of default_config dark_only]
    detectTheme_priority [of default_config no_preference]
  by (simp add: default_config_def dark_high_contrast_def dark_only_def no_preference_def)

subsection \<open>Height measurement\<close>

lemma fold_min_Min: "fold min hs (h::int) = Min (set (h # hs))"
  by (rule Min.set_eq_fold [symmetric])

lemma getContentHeight_fallback:
  assumes "\<forall>el. wrapperEl d = Some el \<longrightarrow> rectHeight el \<le> 0"
  shows "getContentHeight d =
           (case filter (\<lambda>h. h > 0)
                   [bodyScrollHeight d, bodyOffsetHeight d, docOffsetHeight d] of
              h # hs \<Rightarrow> fold min hs h
            | [] \<Rightarrow> if bodyScrollHeight d \<noteq> 0 then bodyScrollHeight d else 400)"
  using assms by (cases "wrapperEl d") (auto simp: getContentHeight_def Let_def)

lemma positive_heights_filter:
  "positive_heights d =
     set (filter (\<lambda>h. h > 0) [bodyScrollHeight d, bodyOffsetHeight d, docOffsetHeight d])"
  unfolding positive_heights_def by auto

lemma example_height: "getContentHeight example_dom = 301"
  by (simp add: getContentHeight_def example_dom_def)

lemma example_dom_simps:
  "embedded example_dom" "innerWidth example_dom = 800"
  by (simp_all add: example_dom_def)

text \<open>
  Claim C5. With a wrapper element whose bounding rectangle has a positive height, the
  measurement is that height rounded up. Otherwise it is the least of the three document
  heights that are positive, when there is one. When none is positive the result is 400;
  here the theorem takes from the DOM that \<^verbatim>\<open>scrollHeight\<close> is never negative, so that a
  non-positive \<^verbatim>\<open>scrollHeight\<close> is zero and \<^verbatim>\<open>bodyScrollHeight || 400\<close> is 400.
\<close>

theorem getContentHeight_measures:
  "(\<forall>el. wrapperEl d = Some el \<and> rectHeight el > 0 \<longrightarrow>
        getContentHeight d = \<lceil>rectHeight el\<rceil>)
 \<and> ((\<forall>el. wrapperEl d = Some el \<longrightarrow> rectHeight el \<le> 0) \<longrightarrow>
       (positive_heights d \<noteq> {} \<longrightarrow> getContentHeight d = Min (positive_heights d))
     \<and> (positive_heights d = {} \<and> 0 \<le> bodyScrollHeight d \<longrightarrow> getContentHeight d = 400))"
proof (intro conjI allI impI)
  fix el assume "wrapperEl d = Some el \<and> rectHeight el > 0"
  then show "getContentHeight d = \<lceil>rectHeight el\<rceil>"
    by (simp add: getContentHeight_def)
next
  assume no: "\<forall>el. wrapperEl d = Some el \<longrightarrow> rectHeight el \<le> 0"
    and ne: "positive_heights d \<noteq> {}"
  let ?v = "filter (\<lambda>h. h > 0) [bodyScrollHeight d, bodyOffsetHeight d, docOffsetHeight d]"
  from ne have "?v \<noteq> []" unfolding positive_heights_filter by simp
  then obtain h hs where v: "?v = h # hs" by (cases ?v) auto
  have "getContentHeight d = fold min hs h"
    using getContentHeight_fallback [OF no] v by simp
  also have "\<dots> = Min (set ?v)" unfolding v by (rule fold_min_Min)
  finally show "getContentHeight d = Min (positive_heights d)"
    by (simp only: positive_heights_filter)
next
  assume no: "\<forall>el. wrapperEl d = Some el \<longrightarrow> rectHeight el \<le> 0"
    and e: "positive_heights d = {} \<and> 0 \<le> bodyScrollHeight d"
  let ?v = "filter (\<lambda>h. h > 0) [bodyScrollHeight d, bodyOffsetHeight d, docOffsetHeight d]"
  from e have v: "?v = []" unfolding positive_heights_filter by simp
  from e have "bodyScrollHeight d = 0" unfolding positive_heights_def by auto
  then show "getContentHeight d = 400"
    using getContentHeight_fallback [OF no] v by simp
qed

text \<open>
  The example document, the same without wrapper element, and a hidden document all of
  whose heights are zero.
\<close>

theorem getContentHeight_measures_witness:
  "getContentHeight example_dom = 301
 \<and> getContentHeight (example_dom\<lparr>wrapperEl := None\<rparr>) = 310
 \<and> getContentHeight
      (example_dom\<lparr>wrapperEl := Some \<lparr>rectHeight = 0, display = ''none''\<rparr>,
         bodyScrollHeight := 0, bodyOffsetHeight := 0, docOffsetHeight := 0\<rparr>) = 400"
proof -
  let ?hidden = "example_dom\<lparr>wrapperEl := Some \<lparr>rectHeight = 0, display = ''none''\<rparr>,
         bodyScrollHeight := 0, bodyOffsetHeight := 0, docOffsetHeight := 0\<rparr>"
  have p: "positive_heights (example_dom\<lparr>wrapperEl := None\<rparr>) = {320, 310, 315}"
    "positive_heights ?hidden = {}"
    by (auto simp: positive_heights_def example_dom_def)
  have c: "\<lceil>601 / 2 :: real\<rceil> = 301" by simp
  from getContentHeight_measures [of example_dom]
  have "getContentHeight example_dom = 301"
    by (simp add: example_dom_def c)
  moreover from getContentHeight_measures [of "example_dom\<lparr>wrapperEl := None\<rparr>"]
  have "getContentHeight (example_dom\<lparr>wrapperEl := None\<rparr>) = 310"
    by (simp add: p)
  moreover from getContentHeight_measures [of ?hidden]
  have "getContentHeight ?hidden = 400"
    by (simp add: p)
  ultimately show ?thesis by simp
qed

subsection \<open>Reporting the size\<close>

text \<open>
  Claim C3. In a frame, \<^verbatim>\<open>sendResizeMessage\<close> posts one message, carrying the measured
  height, if and only if the height differs from the last reported one by more than 1 or
  the width differs from the last reported one at all; otherwise it posts nothing. So a
  second call right after, on a document with the same measurements, never brings the
  number of messages of the two calls above one.
\<close>

theorem sendResizeMessage_sends_iff_changed:
  assumes "embedded (dom w)"
  shows "posted (sendResizeMessage w) =
           posted w @
           (if \<bar>getContentHeight (dom w) - lastHeight (state w)\<bar> > 1 \<or>
               innerWidth (dom w) \<noteq> lastWidth (state w)
            then [\<lparr>subject = ''lti.frameResize'', height = getContentHeight (dom w)\<rparr>]
            else [])
       \<and> (\<forall>d'. embedded d' \<and> getContentHeight d' = getContentHeight (dom w) \<and>
                 innerWidth d' = innerWidth (dom w) \<longrightarrow>
              length (posted (sendResizeMessage ((sendResizeMessage w)\<lparr>dom := d'\<rparr>)))
                \<le> Suc (length (posted w)))"
  using assms by (simp add: sendResizeMessage_def postMessage_def Let_def)

text \<open>A new wrapper in the example document: the first call posts, the second does not.\<close>

theorem sendResizeMessage_sends_witness:
  "posted (sendResizeMessage (new_world default_config example_dom)) =
     [\<lparr>subject = ''lti.frameResize'', height = 301\<rparr>]
 \<and> length (posted (sendResizeMessage (sendResizeMessage (new_world default_config example_dom)))) \<le> 1"
proof -
  let ?w = "new_world default_config example_dom"
  have w: "dom ?w = example_dom" "state ?w = initial_state" "posted ?w = []"
    by (simp_all add: new_world_def)
  have s: "(sendResizeMessage ?w)\<lparr>dom := example_dom\<rparr> = sendResizeMessage ?w"
    by (simp add: sendResizeMessage_def w postMessage_def Let_def new_world_def)
  have e: "embedded (dom ?w)" by (simp add: w example_dom_simps)
  note t = sendResizeMessage_sends_iff_changed [OF e]
  from t have "posted (sendResizeMessage ?w) = [\<lparr>subject = ''lti.frameResize'', height = 301\<rparr>]"
    by (simp add: w example_height example_dom_simps initial_state_def)
  moreover from t have
    "length (posted (sendResizeMessage ((sendResizeMessage ?w)\<lparr>dom := example_dom\<rparr>))) \<le> 1"
    by (simp add: w example_dom_simps)
  ultimately show ?thesis by (simp add: s)
qed

text \<open>
  Claim C9. In a frame, \<^verbatim>\<open>forceResize\<close> always posts one message with the measured
  height, whatever the state held before, and then stores the measured height and width as
  last height and last width. The display of the wrapper element is back to what it was.
\<close>

theorem forceResize_always_sends:
  assumes "embedded (dom w)"
  shows "posted (forceResize w) =
           posted w @ [\<lparr>subject = ''lti.frameResize'', height = getContentHeight (dom w)\<rparr>]
       \<and> lastHeight (state (forceResize w)) = getContentHeight (dom w)
       \<and> lastWidth (state (forceResize w)) = innerWidth (dom w)
       \<and> dom (forceResize w) = dom w"
  using assms
  by (auto simp: forceResize_def postMessage_def Let_def getContentHeight_def split: option.splits)

text \<open>Two forced reports in a row on the same document: both are posted.\<close>

theorem forceResize_always_sends_witness:
  "posted (forceResize (forceResize (new_world default_config example_dom))) =
     [\<lparr>subject = ''lti.frameResize'', height = 301\<rparr>, \<lparr>subject = ''lti.frameResize'', height = 301\<rparr>]
 \<and> lastHeight (state (forceResize (new_world default_config example_dom))) = 301
 \<and> lastWidth (state (forceResize (new_world default_config example_dom))) = 800"
proof -
  let ?w = "new_world default_config example_dom"
  have w: "dom ?w = example_dom" "posted ?w = []"
    by (simp_all add: new_world_def)
  from forceResize_always_sends [of ?w] forceResize_always_sends [of "forceResize ?w"]
  show ?thesis
    by (simp add: w example_height example_dom_simps)
qed

subsection \<open>Debouncing\<close>

lemma sendResizeMessage_timers [simp]:
  "pending (sendResizeMessage w) = pending w"
  "ran (sendResizeMessage w) = ran w"
  "now (sendResizeMessage w) = now w"
  "nextTimerId (sendResizeMessage w) = nextTimerId w"
  "resizeTimer (state (sendResizeMessage w)) = resizeTimer (state w)"
  by (simp_all add: sendResizeMessage_def postMessage_def Let_def)

lemma sendResizeMessage_posted_le:
  "length (posted (sendResizeMessage w)) \<le> Suc (length (posted w))"
  by (simp add: sendResizeMessage_def postMessage_def Let_def)

lemma debouncedResize_timers:
  assumes "debounce_timers_only w"
  shows "pending (debouncedResize w) = [(nextTimerId w, now w + 100)]"
    and "resizeTimer (state (debouncedResize w)) = Some (nextTimerId w)"
    and "now (debouncedResize w) = now w"
    and "ran (debouncedResize w) = ran w"
    and "posted (debouncedResize w) = posted w"
    and "nextTimerId (debouncedResize w) = Suc (nextTimerId w)"
proof -
  have "filter (\<lambda>t. fst t \<noteq> i) (pending w) = []" if "resizeTimer (state w) = Some i" for i
    using assms that by (auto simp: debounce_timers_only_def filter_empty_conv)
  moreover have "pending w = []" if "resizeTimer (state w) = None"
    using assms that by (cases "pending w") (auto simp: debounce_timers_only_def)
  ultimately show "pending (debouncedResize w) = [(nextTimerId w, now w + 100)]"
    by (cases "resizeTimer (state w)")
       (simp_all add: debouncedResize_def clearTimeout_def setTimeout_def)
  show "resizeTimer (state (debouncedResize w)) = Some (nextTimerId w)"
    and "now (debouncedResize w) = now w"
    and "ran (debouncedResize w) = ran w"
    and "posted (debouncedResize w) = posted w"
    and "nextTimerId (debouncedResize w) = Suc (nextTimerId w)"
    by (simp_all add: debouncedResize_def clearTimeout_def setTimeout_def split: option.splits)
qed

lemma elapse_not_due:
  assumes "pending w = [(i, due)]" and "now w + d < due"
  shows "elapse d w = w\<lparr>now := now w + d\<rparr>"
  using assms by (simp add: elapse_def Let_def)

lemma elapse_due:
  assumes "pending w = [(i, due)]" and "due \<le> now w + d"
  shows "elapse d w =
           (sendResizeMessage (w\<lparr>pending := [], now := due, ran := ran w @ [(i, due)]\<rparr>))
             \<lparr>now := now w + d\<rparr>"
  using assms by (simp add: elapse_def Let_def runTimer_def)

lemma call_then_gap:
  assumes "debounce_timers_only w" and "gap < 100"
  shows "elapse gap (debouncedResize w) = (debouncedResize w)\<lparr>now := now w + gap\<rparr>"
  using elapse_not_due [of "debouncedResize w" "nextTimerId w" "now w + 100" gap] assms
  by (simp add: debouncedResize_timers)

lemma call_then_gap_only:
  assumes "debounce_timers_only w" and "gap < 100"
  shows "debounce_timers_only (elapse gap (debouncedResize w))"
  using assms
  by (simp add: call_then_gap debounce_timers_only_def debouncedResize_timers)

lemma burst_timers:
  assumes "debounce_timers_only w" and "\<forall>gap \<in> set gaps. gap < 100"
  shows "pending (burst gaps w) =
           [(nextTimerId w + length gaps, now w + sum_list gaps + 100)]
       \<and> now (burst gaps w) = now w + sum_list gaps
       \<and> ran (burst gaps w) = ran w
       \<and> posted (burst gaps w) = posted w"
  using assms
proof (induction gaps arbitrary: w)
  case Nil
  then show ?case by (simp add: debouncedResize_timers)
next
  case (Cons gap gaps)
  let ?w = "elapse gap (debouncedResize w)"
  from Cons.prems have g: "gap < 100" and gs: "\<forall>gap \<in> set gaps. gap < 100" by simp_all
  have only: "debounce_timers_only ?w" using Cons.prems(1) g by (rule call_then_gap_only)
  have eq: "?w = (debouncedResize w)\<lparr>now := now w + gap\<rparr>"
    using Cons.prems(1) g by (rule call_then_gap)
  from Cons.IH [OF only gs] show ?case
    by (simp add: eq debouncedResize_timers [OF Cons.prems(1)] add.assoc)
qed

lemma burst_worlds_pending:
  assumes "debounce_timers_only w" and "\<forall>gap \<in> set gaps. gap < 100"
  shows "\<forall>w' \<in> set (burst_worlds gaps w). length (pending w') = 1"
  using assms
proof (induction gaps arbitrary: w)
  case Nil
  then show ?case by (simp add: debouncedResize_timers)
next
  case (Cons gap gaps)
  let ?w = "elapse gap (debouncedResize w)"
  from Cons.prems have g: "gap < 100" and gs: "\<forall>gap \<in> set gaps. gap < 100" by simp_all
  have only: "debounce_timers_only ?w" using Cons.prems(1) g by (rule call_then_gap_only)
  have eq: "?w = (debouncedResize w)\<lparr>now := now w + gap\<rparr>"
    using Cons.prems(1) g by (rule call_then_gap)
  have "length (pending (debouncedResize w)) = 1" "length (pending ?w) = 1"
    by (simp_all add: eq debouncedResize_timers [OF Cons.prems(1)])
  with Cons.IH [OF only gs] show ?case by simp
qed

lemma debouncedResize_frame:
  "dom (debouncedResize w) = dom w"
  "lastHeight (state (debouncedResize w)) = lastHeight (state w)"
  "lastWidth (state (debouncedResize w)) = lastWidth (state w)"
  by (simp_all add: debouncedResize_def clearTimeout_def setTimeout_def split: option.splits)

lemma burst_frame:
  assumes "debounce_timers_only w" and "\<forall>gap \<in> set gaps. gap < 100"
  shows "dom (burst gaps w) = dom w
       \<and> lastHeight (state (burst gaps w)) = lastHeight (state w)
       \<and> lastWidth (state (burst gaps w)) = lastWidth (state w)"
  using assms
proof (induction gaps arbitrary: w)
  case Nil
  then show ?case by (simp add: debouncedResize_frame)
next
  case (Cons gap gaps)
  let ?w = "elapse gap (debouncedResize w)"
  from Cons.prems have g: "gap < 100" and gs: "\<forall>gap \<in> set gaps. gap < 100" by simp_all
  have only: "debounce_timers_only ?w" using Cons.prems(1) g by (rule call_then_gap_only)
  have eq: "?w = (debouncedResize w)\<lparr>now := now w + gap\<rparr>"
    using Cons.prems(1) g by (rule call_then_gap)
  from Cons.IH [OF only gs] show ?case
    by (simp add: eq debouncedResize_frame)
qed

text \<open>
  Claim C6. Take a world in which no timer is pending but the one the wrapper holds, and a
  burst of calls of \<^verbatim>\<open>debouncedResize\<close>: a first call and one more call after each gap of
  the list, every gap shorter than the 100 milliseconds of the quiet period. A call leaves
  exactly its own timer pending, due 100 milliseconds later: it has cancelled the one
  before. During the burst no callback runs and nothing is posted, and after every call and
  every gap at most one timer is pending. Once the quiet period is over, the world is the
  one a single run of \<^verbatim>\<open>sendResizeMessage\<close> leaves, made when the timer of the last call
  was due, 100 milliseconds after that call: exactly one callback has run, no timer is
  pending any more, and what has been posted is what one measurement of the document
  against the last reported height and width sends, one message or none.
\<close>

theorem debouncedResize_burst_one_cycle:
  assumes "debounce_timers_only w"
    and "\<forall>gap \<in> set gaps. gap < 100"
    and "100 \<le> quiet"
  shows "pending (debouncedResize w) = [(nextTimerId w, now w + 100)]
       \<and> ran (burst gaps w) = ran w
       \<and> posted (burst gaps w) = posted w
       \<and> elapse quiet (burst gaps w) =
           (sendResizeMessage
              ((burst gaps w)
                 \<lparr>pending := [], now := now w + sum_list gaps + 100,
                  ran := ran w @ [(nextTimerId w + length gaps, now w + sum_list gaps + 100)]\<rparr>))
             \<lparr>now := now w + sum_list gaps + quiet\<rparr>
       \<and> ran (elapse quiet (burst gaps w)) =
           ran w @ [(nextTimerId w + length gaps, now w + sum_list gaps + 100)]
       \<and> pending (elapse quiet (burst gaps w)) = []
       \<and> posted (elapse quiet (burst gaps w)) =
           posted w @
           (if embedded (dom w) \<and>
               (\<bar>getContentHeight (dom w) - lastHeight (state w)\<bar> > 1 \<or>
                innerWidth (dom w) \<noteq> lastWidth (state w))
            then [\<lparr>subject = ''lti.frameResize'', height = getContentHeight (dom w)\<rparr>]
            else [])
       \<and> length (posted (elapse quiet (burst gaps w))) \<le> Suc (length (posted w))
       \<and> (\<forall>w' \<in> set (burst_worlds gaps w). length (pending w') \<le> 1)"
proof -
  let ?b = "burst gaps w"
  let ?T = "now w + sum_list gaps + 100"
  let ?r = "?b\<lparr>pending := [], now := ?T, ran := ran w @ [(nextTimerId w + length gaps, ?T)]\<rparr>"
  note b = burst_timers [OF assms(1,2)]
  note f = burst_frame [OF assms(1,2)]
  have due: "?T \<le> now ?b + quiet" using b assms(3) by simp
  have "elapse quiet ?b =
          (sendResizeMessage
             (?b\<lparr>pending := [], now := ?T, ran := ran ?b @ [(nextTimerId w + length gaps, ?T)]\<rparr>))
            \<lparr>now := now ?b + quiet\<rparr>"
    using b due by (intro elapse_due) simp_all
  then have e: "elapse quiet ?b = (sendResizeMessage ?r)\<lparr>now := now w + sum_list gaps + quiet\<rparr>"
    using b by simp
  have p: "posted (elapse quiet ?b) =
             posted w @
             (if embedded (dom w) \<and>
                 (\<bar>getContentHeight (dom w) - lastHeight (state w)\<bar> > 1 \<or>
                  innerWidth (dom w) \<noteq> lastWidth (state w))
              then [\<lparr>subject = ''lti.frameResize'', height = getContentHeight (dom w)\<rparr>]
              else [])"
    using b f by (simp add: e sendResizeMessage_def postMessage_def Let_def)
  have l: "length (posted (elapse quiet ?b)) \<le> Suc (length (posted w))"
    by (simp add: p)
  have "\<forall>w' \<in> set (burst_worlds gaps w). length (pending w') \<le> 1"
    using burst_worlds_pending [OF assms(1,2)] by simp
  with b p l e debouncedResize_timers(1) [OF assms(1)] show ?thesis by simp
qed

text \<open>
  Three calls, 30 and 99 milliseconds apart, then 100 milliseconds of quiet, on a new
  wrapper in the example document: one run, and its one message.
\<close>

theorem debouncedResize_burst_one_cycle_witness:
  "ran (elapse 100 (burst [30, 99] (new_world default_config example_dom))) = [(3, 229)]
 \<and> pending (elapse 100 (burst [30, 99] (new_world default_config example_dom))) = []
 \<and> posted (elapse 100 (burst [30, 99] (new_world default_config example_dom))) =
     [\<lparr>subject = ''lti.frameResize'', height = 301\<rparr>]"
proof -
  let ?w = "new_world default_config example_dom"
  have only: "debounce_timers_only ?w"
    by (simp add: new_world_def debounce_timers_only_def)
  have gaps: "\<forall>gap \<in> set [30, 99 :: nat]. gap < 100" by simp
  have w: "ran ?w = []" "posted ?w = []" "nextTimerId ?w = 1" "now ?w = 0"
    "dom ?w = example_dom" "lastHeight (state ?w) = 0" "lastWidth (state ?w) = 0"
    by (simp_all add: new_world_def initial_state_def)
  note t = debouncedResize_burst_one_cycle [OF only gaps, of 100]
  note rest = t [THEN conjunct2, THEN conjunct2, THEN conjunct2, THEN conjunct2]
  from rest [THEN conjunct1] rest [THEN conjunct2, THEN conjunct1]
    rest [THEN conjunct2, THEN conjunct2, THEN conjunct1]
  show ?thesis
    by (simp add: w example_height example_dom_simps)
qed

subsection \<open>Transcripts\<close>

lemma find_first:
  assumes "\<forall>t \<in> set pre. \<not> P t" and "P d"
  shows "find P (pre @ d # post) = Some d"
  using assms by (induction pre) auto

lemma find_SomeD:
  assumes "find P xs = Some e"
  shows "\<exists>pre post. xs = pre @ e # post \<and> P e \<and> (\<forall>t \<in> set pre. \<not> P t)"
  using assms
proof (induction xs)
  case Nil
  then show ?case by simp
next
  case (Cons x xs)
  show ?case
  proof (cases "P x")
    case True
    with Cons.prems have "x = e" by simp
    with True have "x # xs = [] @ e # xs \<and> P e \<and> (\<forall>t \<in> set []. \<not> P t)" by simp
    then show ?thesis by blast
  next
    case False
    with Cons.prems have "find P xs = Some e" by simp
    from Cons.IH [OF this] obtain pre post
      where "xs = pre @ e # post" "P e" "\<forall>t \<in> set pre. \<not> P t" by blast
    with False have "x # xs = (x # pre) @ e # post \<and> P e \<and> (\<forall>t \<in> set (x # pre). \<not> P t)"
      by simp
    then show ?thesis by blast
  qed
qed

lemma loadTranscript_requested:
  assumes "transcripts (config w) = Some ts"
    and "find (\<lambda>t. language t = lang) ts = Some e"
  shows "requested (loadTranscript lang w) = requested w @ [url e]"
  using assms
  by (simp add: loadTranscript_def Let_def showTranscriptError_def updateTranscriptDisplay_def
      split: fetched.splits)

text \<open>
  Claim C8, as the code has it. The claim reads: with several entries marked default, the
  entry of the initial load is the last of them. \<^verbatim>\<open>find\<close> returns the first match: with
  an English and a French transcript, both marked default, the URL fetched is the English
  one, and the last default-marked entry is the French one.
\<close>

theorem loadDefaultTranscript_last_default_counterexample:
  "filter isDefault [english, french] = [english, french]
 \<and> requested (loadDefaultTranscript two_defaults) = [''en.txt'']
 \<and> url (last (filter isDefault [english, french])) = ''fr.txt''"
  by (simp add: two_defaults_def new_world_def english_def french_def loadDefaultTranscript_def
      loadTranscript_def Let_def showTranscriptError_def offline_def)

text \<open>
  Claim C8, amended. Let \<open>d\<close> be the first entry of the list that is marked default.
  The initial load fetches the first entry of the list that has the language of \<open>d\<close>;
  where no two entries of the list share a language, that entry is \<open>d\<close> itself. Nothing
  removes duplicates.
\<close>

theorem loadDefaultTranscript_first_default:
  assumes "transcripts (config w) = Some (before @ d # rest)"
    and "\<forall>t \<in> set before. \<not> isDefault t"
    and "isDefault d"
  shows "\<exists>pre e post.
           before @ d # rest = pre @ e # post
         \<and> language e = language d
         \<and> (\<forall>t \<in> set pre. language t \<noteq> language d)
         \<and> requested (loadDefaultTranscript w) = requested w @ [url e]
         \<and> (distinct (map language (before @ d # rest)) \<longrightarrow> e = d)"
proof -
  let ?ts = "before @ d # rest"
  have fd: "find isDefault ?ts = Some d" using assms(2,3) by (rule find_first)
  have "find (\<lambda>t. language t = language d) ?ts \<noteq> None"
    by (auto simp: find_None_iff)
  then obtain e where fe: "find (\<lambda>t. language t = language d) ?ts = Some e" by blast
  from find_SomeD [OF fe] obtain pre post
    where dec: "?ts = pre @ e # post" "language e = language d"
      "\<forall>t \<in> set pre. language t \<noteq> language d" by blast
  have req: "requested (loadDefaultTranscript w) = requested w @ [url e]"
    using loadTranscript_requested [OF assms(1) fe]
    by (simp add: loadDefaultTranscript_def assms(1) fd)
  have "e = d" if "distinct (map language ?ts)"
  proof -
    from that have "inj_on language (set ?ts)" by (simp only: distinct_map)
    moreover have "e \<in> set ?ts" by (subst dec(1)) simp
    moreover have "d \<in> set ?ts" by simp
    ultimately show ?thesis using dec(2) unfolding inj_on_def by blast
  qed
  with dec req show ?thesis by blast
qed

theorem loadDefaultTranscript_first_default_witness:
  "requested (loadDefaultTranscript two_defaults) = [url english]"
proof -
  have c: "transcripts (config two_defaults) = Some ([] @ english # [french])"
    by (simp add: two_defaults_def new_world_def)
  have d: "distinct (map language ([] @ english # [french]))"
    by (simp add: english_def french_def)
  from loadDefaultTranscript_first_default [OF c] d show ?thesis
    by (auto simp: english_def two_defaults_def new_world_def)
qed

subsection \<open>Manifest\<close>

text \<open>No path through \<^verbatim>\<open>loadManifest\<close> writes \<^verbatim>\<open>config.src\<close>.\<close>

lemma createTranscriptUI_src: "src (config (createTranscriptUI w)) = src (config w)"
  by (simp add: createTranscriptUI_def loadDefaultTranscript_def loadTranscript_def Let_def
      showTranscriptError_def updateTranscriptDisplay_def
      split: option.splits fetched.splits list.splits)

lemma createAttributionFooter_src: "src (config (createAttributionFooter w)) = src (config w)"
  by (simp add: createAttributionFooter_def split: option.splits)

lemma loadManifest_src_unchanged: "src (config (snd (loadManifest w))) = src (config w)"
  by (auto simp: loadManifest_def loadManifest_try_def Let_def updateHeaderAfterManifest_def
      updateTitle_def createTranscriptUI_src createAttributionFooter_src
      split: fetched.splits json.splits sum.splits option.splits if_splits list.splits prod.splits)

text \<open>A configured type other than \<^verbatim>\<open>auto\<close> is never replaced by the manifest's.\<close>

lemma createTranscriptUI_type: "type (config (createTranscriptUI w)) = type (config w)"
  by (simp add: createTranscriptUI_def loadDefaultTranscript_def loadTranscript_def Let_def
      showTranscriptError_def updateTranscriptDisplay_def
      split: option.splits fetched.splits list.splits)

lemma createAttributionFooter_type: "type (config (createAttributionFooter w)) = type (config w)"
  by (simp add: createAttributionFooter_def split: option.splits)

lemma loadManifest_type_pinned:
  assumes "type (config w) \<noteq> Some ''auto''"
  shows "type (config (snd (loadManifest w))) = type (config w)"
  using assms
  by (auto simp: loadManifest_def loadManifest_try_def Let_def updateHeaderAfterManifest_def
      updateTitle_def createTranscriptUI_type createAttributionFooter_type
      split: fetched.splits json.splits sum.splits option.splits if_splits list.splits prod.splits)

text \<open>
  \<^verbatim>\<open>loadManifest\<close> on a wrapper built with \<^verbatim>\<open>src = "b.mp4"\<close> and a manifest URL, where
  the manifest says \<^verbatim>\<open>src = "a.mp4"\<close>, \<^verbatim>\<open>type = "video"\<close>: the configuration object of
  the wrapper keeps the \<^verbatim>\<open>src\<close> it was built with and takes the type of the manifest,
  the configured one being \<^verbatim>\<open>auto\<close>; built with \<^verbatim>\<open>type = "model"\<close> as well, it keeps
  \<^verbatim>\<open>model\<close>. The wrapper does not resolve \<^verbatim>\<open>src\<close>: it never reads it.
\<close>

lemma loadManifest_keeps_constructor_src:
  "m_src example_manifest = Some ''a.mp4''
 \<and> src (config (snd (loadManifest url_src_world))) = Some ''b.mp4''
 \<and> type (config (snd (loadManifest url_src_world))) = Some ''video''
 \<and> m_type example_manifest = Some ''video''
 \<and> type (config (snd (loadManifest url_type_world))) = Some ''model''"
  by (simp add: url_type_world_def url_src_world_def new_world_def default_config_def
      example_manifest_def serving_def loadManifest_def loadManifest_try_def Let_def truthy_def)

text \<open>
  Claim C4. No exception leaves \<^verbatim>\<open>loadManifest\<close>, whatever the world. When the fetch
  of the manifest fails (the promise rejects, the response is not \<^verbatim>\<open>ok\<close>, the body is not
  JSON, or it is the JSON \<^verbatim>\<open>null\<close>), the configuration, the state, the document and the
  posted messages are what they were, and one warning has been logged.
\<close>

theorem loadManifest_failure_atomic:
  "fst (loadManifest w) = None
 \<and> (manifest_fetch_fails w \<longrightarrow>
       config (snd (loadManifest w)) = config w
     \<and> state (snd (loadManifest w)) = state w
     \<and> dom (snd (loadManifest w)) = dom w
     \<and> posted (snd (loadManifest w)) = posted w
     \<and> warnings (snd (loadManifest w)) = warnings w @ [''Failed to load manifest:''])"
proof (intro conjI impI)
  show "fst (loadManifest w) = None"
    by (simp add: loadManifest_def split: prod.splits option.splits)
next
  assume "manifest_fetch_fails w"
  then have "\<exists>e. loadManifest_try w = (Some e, w)"
    by (auto simp: manifest_fetch_fails_def loadManifest_try_def split: fetched.splits json.splits)
  then obtain e where "loadManifest_try w = (Some e, w)" ..
  then have "snd (loadManifest w) = w\<lparr>warnings := warnings w @ [''Failed to load manifest:'']\<rparr>"
    by (simp add: loadManifest_def)
  then show "config (snd (loadManifest w)) = config w"
    "state (snd (loadManifest w)) = state w"
    "dom (snd (loadManifest w)) = dom w"
    "posted (snd (loadManifest w)) = posted w"
    "warnings (snd (loadManifest w)) = warnings w @ [''Failed to load manifest:'']"
    by simp_all
qed

text \<open>A manifest answered with 404, and one whose body is not JSON.\<close>

theorem loadManifest_failure_witness:
  "fst (loadManifest not_found_world) = None
 \<and> config (snd (loadManifest not_found_world)) = config not_found_world
 \<and> dom (snd (loadManifest not_found_world)) = example_dom
 \<and> src (config (snd (loadManifest not_found_world))) = Some ''b.mp4''
 \<and> config (snd (loadManifest malformed_world)) = config malformed_world"
proof -
  have f: "manifest_fetch_fails not_found_world" "manifest_fetch_fails malformed_world"
    by (simp_all add: manifest_fetch_fails_def not_found_world_def malformed_world_def
        url_src_world_def new_world_def serving_def)
  from loadManifest_failure_atomic [of not_found_world]
    loadManifest_failure_atomic [of malformed_world] f
  show ?thesis
    by (simp add: not_found_world_def url_src_world_def new_world_def)
qed

subsection \<open>Configuration resolution\<close>

text \<open>The resolver does use the URL parameter where the manifest gives no \<^verbatim>\<open>src\<close>.\<close>

lemma resolve_without_manifest_src:
  assumes "from_manifest manifestJsonOrNull m_src = None"
    and "manifestJsonOrNull \<noteq> InvalidJson"
    and "q_src urlParams = Some s"
  shows "\<exists>c. resolve parser urlParams manifestJsonOrNull defaults = Inr c \<and> src c = Some s"
  using assms by (simp add: resolve_def merge_def Let_def)



end
